theory Spec2Isabelle
  imports Main "HOL-Library.AList"
begin

section \<open>The MiracleCast controller window as a state machine\<close>

text \<open>
  The program is one class, \<open>MiracleCastGUI\<close>, whose methods run one at a time on the
  GUI thread.  Each method becomes a function from the window's state to its new state.
  What the operating system and the child programs decide (how long a program takes to
  start, whether it reacts to SIGTERM, what \<open>systemctl\<close> answers) is an argument of the
  operation or a field of the child process, so every run of the code is a run of the
  model for some choice of these.

  Text is a list of 8-bit characters read as the code points U+0000 to U+00FF.
  Time is counted in milliseconds, the unit of the code's timeouts.
\<close>

subsection \<open>Text helpers: \<open>str\<close>, \<open>join\<close>, \<open>strip\<close>, \<open>isdigit\<close>, \<open>int\<close>\<close>

definition digit_char :: "nat \<Rightarrow> char" where
  "digit_char d = char_of (48 + d)"

fun str_nat :: "nat \<Rightarrow> string" where
  "str_nat n = (if n < 10 then [digit_char n]
                else str_nat (n div 10) @ [digit_char (n mod 10)])"

declare str_nat.simps [simp del]

definition str_int :: "int \<Rightarrow> string" where
  "str_int i = (if i < 0 then CHR ''-'' # str_nat (nat (- i)) else str_nat (nat i))"

fun join_sp :: "string list \<Rightarrow> string" where
  "join_sp [] = []"
| "join_sp [x] = x"
| "join_sp (x # y # ys) = x @ '' '' @ join_sp (y # ys)"

definition squote :: string where
  \<comment> \<open>one apostrophe\<close>
  "squote = [CHR 0x27]"

definition two_digits :: "nat \<Rightarrow> string" where
  "two_digits n = [digit_char (n div 10 mod 10), digit_char (n mod 10)]"

definition strftime_hms :: "nat \<Rightarrow> string" where
  \<comment> \<open>\<open>time.strftime("[%H:%M:%S]")\<close> for a wall clock given in milliseconds\<close>
  "strftime_hms t =
     ''['' @ two_digits (t div 3600000 mod 24) @ '':'' @ two_digits (t div 60000 mod 60)
     @ '':'' @ two_digits (t div 1000 mod 60) @ '']''"

definition py_isspace :: "char \<Rightarrow> bool" where
  \<comment> \<open>the characters \<open>str.strip()\<close> removes, below U+0100\<close>
  "py_isspace c =
     (let n = (of_char c :: nat)
      in (9 \<le> n \<and> n \<le> 13) \<or> (28 \<le> n \<and> n \<le> 32) \<or> n = 133 \<or> n = 160)"

definition strip :: "string \<Rightarrow> string" where
  "strip t = rev (dropWhile py_isspace (rev (dropWhile py_isspace t)))"

definition ascii_digit :: "char \<Rightarrow> bool" where
  "ascii_digit c = (let n = (of_char c :: nat) in 48 \<le> n \<and> n \<le> 57)"

definition isdigit_char :: "char \<Rightarrow> bool" where
  \<comment> \<open>\<open>str.isdigit\<close> also accepts the superscripts U+00B2, U+00B3 and U+00B9\<close>
  "isdigit_char c = (ascii_digit c \<or> c = CHR 0xB2 \<or> c = CHR 0xB3 \<or> c = CHR 0xB9)"

definition isdigit :: "string \<Rightarrow> bool" where
  "isdigit t = (t \<noteq> [] \<and> list_all isdigit_char t)"

definition dec_value :: "string \<Rightarrow> nat" where
  "dec_value t = foldl (\<lambda>acc c. 10 * acc + (of_char c - 48)) 0 t"

datatype error = ValueError | UnboundLocalError

definition py_int :: "string \<Rightarrow> error + nat" where
  \<comment> \<open>\<open>int(t)\<close> as the code calls it, on a text that passed \<open>isdigit\<close>: the
      superscript digits are no decimal digits and raise, and so does a text of more
      than 4300 digits (the default of \<open>sys.int_info.default_max_str_digits\<close>)\<close>
  "py_int t =
     (if t \<noteq> [] \<and> list_all ascii_digit t \<and> length t \<le> 4300 then Inr (dec_value t)
      else Inl ValueError)"

subsection \<open>Child processes and the window\<close>

datatype qstate = NotRunning | Starting | Running

record behaviour =
  start_delay :: "nat option"
    \<comment> \<open>milliseconds until the program has started; \<open>None\<close>: it cannot be started\<close>
  term_delay :: "nat option"
    \<comment> \<open>milliseconds from SIGTERM to its exit; \<open>None\<close>: it does not exit on SIGTERM\<close>
  term_code :: int
    \<comment> \<open>the exit code reported when it exits after SIGTERM\<close>
  kill_code :: int
    \<comment> \<open>the exit code reported when it dies from SIGKILL\<close>

record qprocess =
  pstate :: qstate
  sigterm :: bool
  sigkill :: bool
  owner :: string
    \<comment> \<open>the \<open>process_name\<close> captured by the handler connected to \<open>finished\<close>\<close>
  program :: "string list"
  beh :: behaviour

record gui =
  processes :: "(string \<times> nat) list"
    \<comment> \<open>\<open>self.processes\<close>: a dict in insertion order, from a name to a process object\<close>
  heap :: "nat \<Rightarrow> qprocess"
  next_pid :: nat
  console :: "string list"
  err_stream :: "string list"
  dialogs :: "string list"
  sink_status_label :: string
  source_status_label :: string
  nm_status :: string
  wpa_status :: string
  now :: nat
  universal_script :: string
  iface_combo :: string
  source_iface_combo :: string
  uibc_check :: bool
  green_screen_check :: bool
  hw_fixes_check :: bool
  session_check :: bool
  source_res_width :: string
  source_res_height :: string
  source_fps :: string
  source_bitrate :: string
  source_hw_fixes_check :: bool
  source_session_check :: bool
  sys_calls :: "string list list"
    \<comment> \<open>the argument vectors handed to \<open>subprocess\<close>\<close>

definition live :: "qprocess \<Rightarrow> bool" where
  \<comment> \<open>the child exists and has not been sent SIGKILL\<close>
  "live q = (pstate q \<noteq> NotRunning \<and> \<not> sigkill q)"

definition show_error :: "string \<Rightarrow> gui \<Rightarrow> gui" where
  "show_error message s = s\<lparr>dialogs := dialogs s @ [message]\<rparr>"

definition log :: "string \<Rightarrow> bool \<Rightarrow> gui \<Rightarrow> gui" where
  "log message err s =
     (let timestamp = strftime_hms (now s);
          prefix = (if err then ''[ERROR] '' else '''');
          s1 = s\<lparr>console := console s @ [timestamp @ '' '' @ prefix @ message]\<rparr>
      in if err then s1\<lparr>err_stream := err_stream s1 @ [''ERROR: '' @ message]\<rparr> else s1)"

definition set_status :: "string \<Rightarrow> string \<Rightarrow> gui \<Rightarrow> gui" where
  "set_status process_name txt s =
     (if process_name = ''sink'' then s\<lparr>sink_status_label := txt\<rparr>
      else if process_name = ''source'' then s\<lparr>source_status_label := txt\<rparr>
      else s)"

definition process_finished :: "string \<Rightarrow> int \<Rightarrow> gui \<Rightarrow> gui" where
  "process_finished process_name exit_code s =
     (if exit_code \<noteq> 0 then
        set_status process_name ''Error''
          (log (''Process '' @ squote @ process_name @ squote @ '' exited with code ''
                @ str_int exit_code) True s)
      else
        set_status process_name ''Not Running''
          (log (''Process '' @ squote @ process_name @ squote @ '' completed successfully'')
             False s))"

subsection \<open>What \<open>QProcess\<close> does\<close>

definition upd_proc :: "nat \<Rightarrow> (qprocess \<Rightarrow> qprocess) \<Rightarrow> gui \<Rightarrow> gui" where
  "upd_proc p f s = s\<lparr>heap := (heap s)(p := f (heap s p))\<rparr>"

definition terminate :: "nat \<Rightarrow> gui \<Rightarrow> gui" where
  "terminate p s =
     (if pstate (heap s p) = NotRunning then s else upd_proc p (\<lambda>q. q\<lparr>sigterm := True\<rparr>) s)"

definition kill :: "nat \<Rightarrow> gui \<Rightarrow> gui" where
  "kill p s =
     (if pstate (heap s p) = NotRunning then s else upd_proc p (\<lambda>q. q\<lparr>sigkill := True\<rparr>) s)"

definition emit_finished :: "nat \<Rightarrow> int \<Rightarrow> gui \<Rightarrow> gui" where
  \<comment> \<open>the child is gone: the object becomes \<open>NotRunning\<close> and \<open>finished\<close> calls the
      connected \<open>process_finished\<close>\<close>
  "emit_finished p exit_code s =
     process_finished (owner (heap s p)) exit_code
       (upd_proc p (\<lambda>q. q\<lparr>pstate := NotRunning, sigterm := False, sigkill := False\<rparr>) s)"

definition waitForFinished :: "nat \<Rightarrow> nat \<Rightarrow> gui \<Rightarrow> bool \<times> gui" where
  "waitForFinished p msecs s =
     (let q = heap s p in
      if pstate q = NotRunning then (False, s)
      else if sigkill q then (True, emit_finished p (kill_code (beh q)) s)
      else if sigterm q then
        (case term_delay (beh q) of
           Some d \<Rightarrow>
             if d \<le> msecs then (True, emit_finished p (term_code (beh q)) (s\<lparr>now := now s + d\<rparr>))
             else (False, s\<lparr>now := now s + msecs\<rparr>)
         | None \<Rightarrow> (False, s\<lparr>now := now s + msecs\<rparr>))
      else (False, s\<lparr>now := now s + msecs\<rparr>))"

definition new_process :: "string \<Rightarrow> behaviour \<Rightarrow> qprocess" where
  "new_process process_name b =
     \<lparr>pstate = NotRunning, sigterm = False, sigkill = False, owner = process_name,
      program = [], beh = b\<rparr>"

definition start :: "nat \<Rightarrow> string \<Rightarrow> string list \<Rightarrow> gui \<Rightarrow> gui" where
  "start p exe args s =
     (if pstate (heap s p) = NotRunning
      then upd_proc p (\<lambda>q. q\<lparr>pstate := Starting, program := exe # args\<rparr>) s else s)"

definition waitForStarted :: "nat \<Rightarrow> nat \<Rightarrow> gui \<Rightarrow> bool \<times> gui" where
  "waitForStarted p msecs s =
     (let q = heap s p in
      if pstate q \<noteq> Starting then (pstate q = Running, s)
      else
        (case start_delay (beh q) of
           None \<Rightarrow> (False, upd_proc p (\<lambda>q. q\<lparr>pstate := NotRunning\<rparr>) s)
         | Some d \<Rightarrow>
             if d \<le> msecs
             then (True, upd_proc p (\<lambda>q. q\<lparr>pstate := Running\<rparr>) (s\<lparr>now := now s + d\<rparr>))
             else (False, s\<lparr>now := now s + msecs\<rparr>)))"

subsection \<open>Stopping\<close>

definition stop_sink_service :: "gui \<Rightarrow> gui" where
  "stop_sink_service s =
     (case map_of (processes s) ''sink'' of
        None \<Rightarrow> s
      | Some p \<Rightarrow>
          (let (fin, s1) = waitForFinished p 3000 (terminate p s);
               s2 = (if fin then s1
                     else kill p (log ''Process didn't terminate gracefully, forcing...'' True s1))
           in log ''Stopped sink service'' False (s2\<lparr>sink_status_label := ''Not Running''\<rparr>)))"

definition stop_source_service :: "gui \<Rightarrow> gui" where
  "stop_source_service s =
     (case map_of (processes s) ''source'' of
        None \<Rightarrow> s
      | Some p \<Rightarrow>
          (let (fin, s1) = waitForFinished p 3000 (terminate p s);
               s2 = (if fin then s1
                     else kill p (log ''Process didn't terminate gracefully, forcing...'' True s1))
           in log ''Stopped source service'' False (s2\<lparr>source_status_label := ''Not Running''\<rparr>)))"

subsection \<open>Starting: \<open>run_command\<close>\<close>

definition stop_existing :: "string \<Rightarrow> gui \<Rightarrow> gui" where
  \<comment> \<open>the block of \<open>run_command\<close> under \<open>if process_name in self.processes\<close>\<close>
  "stop_existing process_name s =
     (case map_of (processes s) process_name of
        None \<Rightarrow> s
      | Some p \<Rightarrow>
          (let (fin, s1) = waitForFinished p 3000 (terminate p s)
           in if fin then s1
              else kill p (log ''Process didn't terminate gracefully, forcing kill'' True s1)))"

definition pop :: "string \<Rightarrow> gui \<Rightarrow> gui" where
  "pop process_name s = s\<lparr>processes := AList.delete process_name (processes s)\<rparr>"

definition launch :: "string list \<Rightarrow> string \<Rightarrow> behaviour \<Rightarrow> gui \<Rightarrow> gui" where
  \<comment> \<open>the rest of \<open>run_command\<close>: log the command, create and register the process
      object, start it and wait for it to have started\<close>
  "launch cmd process_name b s =
     (let s1 = log (''Running: '' @ join_sp cmd) False s;
          p = next_pid s1;
          s2 = s1\<lparr>heap := (heap s1)(p := new_process process_name b),
                  next_pid := Suc p,
                  processes := AList.update process_name p (processes s1)\<rparr>
      in case cmd of
           [] \<Rightarrow>
             pop process_name
               (log ''Exception starting process: list index out of range'' True s2)
         | exe # args \<Rightarrow>
             (let (started, s3) = waitForStarted p 5000 (start p exe args s2)
              in if started then s3
                 else set_status process_name ''Start Failed''
                        (pop process_name
                           (log (''Failed to start process: '' @ exe) True s3))))"

definition run_command :: "string list option \<Rightarrow> string \<Rightarrow> behaviour \<Rightarrow> gui \<Rightarrow> gui" where
  "run_command cmd process_name b s =
     (case cmd of
        None \<Rightarrow> log ''Invalid command parameters, cannot execute'' True s
      | Some c \<Rightarrow> launch c process_name b (stop_existing process_name s))"

subsection \<open>Building the command line\<close>

definition sink_cmd :: "gui \<Rightarrow> string list" where
  "sink_cmd s =
     [universal_script s, ''-i'', iface_combo s, ''-m'', ''sink'']
     @ (if uibc_check s then [''-u''] else [])
     @ (if green_screen_check s then [''-g''] else [])
     @ (if \<not> hw_fixes_check s then [''-n''] else [])
     @ (if \<not> session_check s then [''-s''] else [])"

definition source_flags :: "string list \<Rightarrow> gui \<Rightarrow> error + (string list option \<times> gui)" where
  "source_flags cmd s =
     Inr (Some (cmd @ (if \<not> source_hw_fixes_check s then [''-n''] else [])
                    @ (if \<not> source_session_check s then [''-s''] else [])), s)"

definition source_bitrate_opt :: "string list \<Rightarrow> gui \<Rightarrow> error + (string list option \<times> gui)" where
  "source_bitrate_opt cmd s =
     (let bitrate = strip (source_bitrate s) in
      if bitrate \<noteq> [] \<and> isdigit bitrate then
        (case py_int bitrate of
           Inl e \<Rightarrow> Inl e
         | Inr bitrate_val \<Rightarrow>
             if 1000 \<le> bitrate_val \<and> bitrate_val \<le> 20000
             then source_flags (cmd @ [''-b'', bitrate]) s
             else Inr (None, show_error ''Invalid bitrate. Must be between 1000-20000 kbps.'' s))
      else source_flags cmd s)"

definition source_fps_opt :: "string list \<Rightarrow> gui \<Rightarrow> error + (string list option \<times> gui)" where
  "source_fps_opt cmd s =
     (let fps = strip (source_fps s) in
      if fps \<noteq> [] \<and> isdigit fps then
        (case py_int fps of
           Inl e \<Rightarrow> Inl e
         | Inr fps_val \<Rightarrow>
             if 10 \<le> fps_val \<and> fps_val \<le> 60
             then source_bitrate_opt (cmd @ [''-f'', fps]) s
             else Inr (None, show_error ''Invalid FPS. Must be between 10-60.'' s))
      else source_bitrate_opt cmd s)"

definition source_cmd :: "gui \<Rightarrow> error + (string list option \<times> gui)" where
  "source_cmd s =
     (let cmd = [universal_script s, ''-i'', source_iface_combo s, ''-m'', ''source''];
          width = strip (source_res_width s);
          height = strip (source_res_height s) in
      if width \<noteq> [] \<and> height \<noteq> [] \<and> isdigit width \<and> isdigit height then
        (case py_int width of
           Inl e \<Rightarrow> Inl e
         | Inr width_val \<Rightarrow>
             (case py_int height of
                Inl e \<Rightarrow> Inl e
              | Inr height_val \<Rightarrow>
                  if 320 \<le> width_val \<and> width_val \<le> 3840 \<and> 240 \<le> height_val \<and> height_val \<le> 2160
                  then source_fps_opt (cmd @ [''-r'', width @ ''x'' @ height]) s
                  else Inr (None,
                         show_error
                           ''Invalid resolution. Width must be 320-3840, height 240-2160.'' s)))
      else source_fps_opt cmd s)"

definition build_universal_cmd :: "string \<Rightarrow> gui \<Rightarrow> error + (string list option \<times> gui)" where
  "build_universal_cmd mode s =
     (if mode = ''sink'' then Inr (Some (sink_cmd s), s)
      else if mode = ''source'' then source_cmd s
      else Inl UnboundLocalError)"

definition start_sink_service :: "behaviour \<Rightarrow> gui \<Rightarrow> error + gui" where
  "start_sink_service b s =
     (let iface = iface_combo s in
      if iface = [] then Inr (show_error ''Select network interface first'' s)
      else
        (case build_universal_cmd ''sink'' s of
           Inl e \<Rightarrow> Inl e
         | Inr (cmd, s1) \<Rightarrow>
             Inr (log (''Started sink mode with universal script on '' @ iface) False
                    ((run_command cmd ''sink'' b s1)\<lparr>sink_status_label := ''Running''\<rparr>))))"

definition start_source_service :: "behaviour \<Rightarrow> gui \<Rightarrow> error + gui" where
  "start_source_service b s =
     (let iface = source_iface_combo s in
      if iface = [] then Inr (show_error ''Select network interface first'' s)
      else
        (case build_universal_cmd ''source'' s of
           Inl e \<Rightarrow> Inl e
         | Inr (cmd, s1) \<Rightarrow>
             Inr (log (''Started source mode with universal script on '' @ iface) False
                    ((run_command cmd ''source'' b s1)\<lparr>source_status_label := ''Running''\<rparr>))))"

subsection \<open>Teardown: \<open>cleanup_on_exit\<close>\<close>

definition cleanup_one :: "string \<Rightarrow> nat \<Rightarrow> gui \<Rightarrow> gui" where
  "cleanup_one name p s =
     (if pstate (heap s p) \<noteq> NotRunning then
        (let (fin, s1) =
               waitForFinished p 2000
                 (terminate p (log (''Cleaning up process: '' @ name) False s))
         in if fin then s1 else kill p s1)
      else s)"

fun cleanup_loop :: "(string \<times> nat) list \<Rightarrow> gui \<Rightarrow> gui" where
  "cleanup_loop [] s = s"
| "cleanup_loop ((name, p) # items) s = cleanup_loop items (cleanup_one name p s)"

definition cleanup_on_exit :: "gui \<Rightarrow> gui" where
  "cleanup_on_exit s = cleanup_loop (processes s) s"

subsection \<open>System services: \<open>manage_service\<close>\<close>

record sys_env =
  systemctl_result :: "string + (int \<times> string)"
    \<comment> \<open>what \<open>subprocess.run\<close> of \<open>sudo systemctl\<close> does: raise an exception with this
        text, or return this code and this standard error\<close>
  nm_active :: "string + int"
  wpa_active :: "string + int"

definition name_char :: "char \<Rightarrow> bool" where
  \<comment> \<open>the class \<open>[a-zA-Z0-9_.-]\<close>\<close>
  "name_char c =
     (let n = (of_char c :: nat)
      in (97 \<le> n \<and> n \<le> 122) \<or> (65 \<le> n \<and> n \<le> 90) \<or> (48 \<le> n \<and> n \<le> 57)
         \<or> c = CHR ''_'' \<or> c = CHR ''.'' \<or> c = CHR ''-'')"

definition name_ok :: "string \<Rightarrow> bool" where
  "name_ok t = (t \<noteq> [] \<and> list_all name_char t)"

definition re_match_name :: "string \<Rightarrow> bool" where
  \<comment> \<open>\<open>re.match(r'^[a-zA-Z0-9_.-]+$', t)\<close>, the condition that line 605 of the source
      is read as; \<open>$\<close> also matches before one newline that ends the text\<close>
  "re_match_name t = (name_ok t \<or> (t \<noteq> [] \<and> last t = CHR 0x0A \<and> name_ok (butlast t)))"

definition allowed_services :: "string list" where
  "allowed_services = [''NetworkManager'', ''wpa_supplicant'', ''network-manager'']"

definition check_services_status :: "sys_env \<Rightarrow> gui \<Rightarrow> gui" where
  "check_services_status env s =
     (let s1 = s\<lparr>sys_calls := sys_calls s @ [[''systemctl'', ''is-active'', ''NetworkManager'']]\<rparr>
      in case nm_active env of
           Inl e \<Rightarrow> log (''Service status check failed: '' @ e) True s1
         | Inr nm \<Rightarrow>
             (let s2 = s1\<lparr>sys_calls :=
                            sys_calls s1 @ [[''systemctl'', ''is-active'', ''wpa_supplicant'']]\<rparr>
              in case wpa_active env of
                   Inl e \<Rightarrow> log (''Service status check failed: '' @ e) True s2
                 | Inr wpa \<Rightarrow>
                     s2\<lparr>nm_status := (if nm = 0 then ''Running'' else ''Stopped''),
                        wpa_status := (if wpa = 0 then ''Running'' else ''Stopped'')\<rparr>))"

definition manage_service :: "string \<Rightarrow> bool \<Rightarrow> sys_env \<Rightarrow> gui \<Rightarrow> gui" where
  "manage_service service_name start_it env s =
     (if \<not> re_match_name service_name then
        (let error_msg = ''Invalid service name format: '' @ service_name
         in log error_msg True (show_error error_msg s))
      else
        (let action = (if start_it then ''start'' else ''stop'') in
         if service_name \<notin> set allowed_services then
           (let error_msg = ''Service management not allowed for: '' @ service_name
            in log error_msg True (show_error error_msg s))
         else
           (let s1 = s\<lparr>sys_calls :=
                          sys_calls s @ [[''sudo'', ''systemctl'', action, service_name]]\<rparr>
            in case systemctl_result env of
                 Inl e \<Rightarrow> log e True (show_error (''Error: '' @ e) s1)
               | Inr (returncode, err) \<Rightarrow>
                   if returncode = 0 then
                     check_services_status env
                       (log (service_name @ '' '' @ action @ ''ed successfully'') False s1)
                   else
                     (let error_msg =
                            (if strip err \<noteq> [] then strip err
                             else ''Failed to '' @ action @ '' '' @ service_name)
                      in log error_msg True (show_error error_msg s1)))))"

subsection \<open>A process exits on its own\<close>

definition process_exits :: "nat \<Rightarrow> int \<Rightarrow> gui \<Rightarrow> gui" where
  \<comment> \<open>the event loop learns that child \<open>p\<close> has exited with \<open>exit_code\<close>\<close>
  "process_exits p exit_code s =
     (if pstate (heap s p) = NotRunning then s else emit_finished p exit_code s)"

subsection \<open>The window after \<open>__init__\<close>\<close>

definition idle_process :: qprocess where
  "idle_process =
     new_process [] \<lparr>start_delay = None, term_delay = None, term_code = 0, kill_code = 0\<rparr>"

definition init_gui :: "string \<Rightarrow> gui" where
  "init_gui script =
     \<lparr>processes = [], heap = (\<lambda>_. idle_process), next_pid = 0,
      console = [], err_stream = [], dialogs = [],
      sink_status_label = ''Not Running'', source_status_label = ''Not Running'',
      nm_status = ''Unknown'', wpa_status = ''Unknown'',
      now = 0, universal_script = script,
      iface_combo = [], source_iface_combo = [],
      uibc_check = False, green_screen_check = False,
      hw_fixes_check = True, session_check = True,
      source_res_width = ''1280'', source_res_height = ''720'',
      source_fps = ''30'', source_bitrate = ''8192'',
      source_hw_fixes_check = True, source_session_check = True,
      sys_calls = []\<rparr>"

subsection \<open>Example programs and an example environment\<close>

definition responsive :: behaviour where
  \<comment> \<open>starts in 40 ms and exits with code 0, 1500 ms after SIGTERM\<close>
  "responsive = \<lparr>start_delay = Some 40, term_delay = Some 1500, term_code = 0, kill_code = 9\<rparr>"

definition stubborn :: behaviour where
  \<comment> \<open>starts in 40 ms and ignores SIGTERM\<close>
  "stubborn = \<lparr>start_delay = Some 40, term_delay = None, term_code = 0, kill_code = 9\<rparr>"

definition unstartable :: behaviour where
  \<comment> \<open>a program that cannot be executed\<close>
  "unstartable = \<lparr>start_delay = None, term_delay = None, term_code = 0, kill_code = 9\<rparr>"

definition quiet_env :: sys_env where
  "quiet_env = \<lparr>systemctl_result = Inr (0, []), nm_active = Inr 0, wpa_active = Inr 3\<rparr>"

definition wlan_gui :: gui where
  \<comment> \<open>the fresh window with the interface wlan0 selected on both tabs\<close>
  "wlan_gui = (init_gui ''/opt/mc.sh'')\<lparr>iface_combo := ''wlan0'', source_iface_combo := ''wlan0''\<rparr>"

subsection \<open>Views used in the statements\<close>

definition status_of :: "string \<Rightarrow> gui \<Rightarrow> string" where
  \<comment> \<open>the label that shows the status of a role\<close>
  "status_of process_name s =
     (if process_name = ''sink'' then sink_status_label s else source_status_label s)"

definition exits_within :: "qprocess \<Rightarrow> nat \<Rightarrow> bool" where
  \<comment> \<open>a child that is gone within \<open>msecs\<close> of a SIGTERM: it was killed before, or it
      reacts to the signal in time\<close>
  "exits_within q msecs =
     (pstate q \<noteq> NotRunning \<and>
      (sigkill q \<or> (case term_delay (beh q) of None \<Rightarrow> False | Some d \<Rightarrow> d \<le> msecs)))"

definition sink_gui :: gui where
  \<comment> \<open>the window after a sink that reacts to SIGTERM has been started on wlan0\<close>
  "sink_gui = (case start_sink_service responsive wlan_gui of Inl _ \<Rightarrow> wlan_gui | Inr s \<Rightarrow> s)"

definition running_gui :: gui where
  \<comment> \<open>the window after a source that ignores SIGTERM has been started as well\<close>
  "running_gui = (case start_source_service stubborn sink_gui of Inl _ \<Rightarrow> sink_gui | Inr s \<Rightarrow> s)"

definition numeric :: "string \<Rightarrow> bool" where
  \<comment> \<open>a text for which \<open>isdigit()\<close> holds and which \<open>int()\<close> converts\<close>
  "numeric t = (isdigit t \<and> (case py_int t of Inl _ \<Rightarrow> False | Inr _ \<Rightarrow> True))"

definition int_value :: "string \<Rightarrow> nat" where
  \<comment> \<open>the value \<open>int(t)\<close> of a text that \<open>int()\<close> converts\<close>
  "int_value t = (case py_int t of Inl _ \<Rightarrow> 0 | Inr v \<Rightarrow> v)"

definition between :: "nat \<Rightarrow> string \<Rightarrow> nat \<Rightarrow> bool" where
  \<comment> \<open>\<open>int()\<close> converts \<open>t\<close> and \<open>lo <= int(t) <= hi\<close>\<close>
  "between lo t hi = (case py_int t of Inl _ \<Rightarrow> False | Inr v \<Rightarrow> lo \<le> v \<and> v \<le> hi)"

subsection \<open>The states the window can be in\<close>

definition registry_ok :: "gui \<Rightarrow> bool" where
  \<comment> \<open>\<open>self.processes\<close> is a dict (one entry for a key) of process objects that exist\<close>
  "registry_ok s =
     (distinct (map fst (processes s)) \<and> (\<forall>(n, p) \<in> set (processes s). p < next_pid s))"

definition user_input :: "gui \<Rightarrow> gui \<Rightarrow> gui" where
  \<comment> \<open>the user edits the widgets: \<open>s\<close> with the widget contents of \<open>w\<close>\<close>
  "user_input w s =
     s\<lparr>iface_combo := iface_combo w, source_iface_combo := source_iface_combo w,
       uibc_check := uibc_check w, green_screen_check := green_screen_check w,
       hw_fixes_check := hw_fixes_check w, session_check := session_check w,
       source_res_width := source_res_width w, source_res_height := source_res_height w,
       source_fps := source_fps w, source_bitrate := source_bitrate w,
       source_hw_fixes_check := source_hw_fixes_check w,
       source_session_check := source_session_check w\<rparr>"

definition process_started :: "nat \<Rightarrow> gui \<Rightarrow> gui" where
  \<comment> \<open>a child that was still starting when \<open>waitForStarted\<close> gave up has started\<close>
  "process_started p s =
     (if pstate (heap s p) = Starting then upd_proc p (\<lambda>q. q\<lparr>pstate := Running\<rparr>) s else s)"

inductive reachable :: "gui \<Rightarrow> bool" where
  init: "reachable (init_gui script)"
| input: "reachable s \<Longrightarrow> reachable (user_input w s)"
| tick: "reachable s \<Longrightarrow> reachable (s\<lparr>now := now s + d\<rparr>)"
| start_sink: "reachable s \<Longrightarrow> start_sink_service b s = Inr s' \<Longrightarrow> reachable s'"
| start_source: "reachable s \<Longrightarrow> start_source_service b s = Inr s' \<Longrightarrow> reachable s'"
| stop_sink: "reachable s \<Longrightarrow> reachable (stop_sink_service s)"
| stop_source: "reachable s \<Longrightarrow> reachable (stop_source_service s)"
| exits: "reachable s \<Longrightarrow> p < next_pid s \<Longrightarrow> reachable (process_exits p exit_code s)"
| started: "reachable s \<Longrightarrow> p < next_pid s \<Longrightarrow> reachable (process_started p s)"
| service: "reachable s \<Longrightarrow> reachable (manage_service service_name start_it env s)"
| status: "reachable s \<Longrightarrow> reachable (check_services_status env s)"

section \<open>Properties\<close>

subsection \<open>What each primitive leaves alone\<close>

lemma log_frame [simp]:
  "processes (log m e s) = processes s" "heap (log m e s) = heap s"
  "next_pid (log m e s) = next_pid s" "sys_calls (log m e s) = sys_calls s"
  "dialogs (log m e s) = dialogs s" "now (log m e s) = now s"
  "sink_status_label (log m e s) = sink_status_label s"
  "source_status_label (log m e s) = source_status_label s"
  by (simp_all add: log_def Let_def)

lemma log_err_stream:
  "err_stream (log m e s) = (if e then err_stream s @ [''ERROR: '' @ m] else err_stream s)"
  by (simp add: log_def Let_def)

lemma set_status_frame [simp]:
  "processes (set_status n t s) = processes s" "heap (set_status n t s) = heap s"
  "next_pid (set_status n t s) = next_pid s" "sys_calls (set_status n t s) = sys_calls s"
  "dialogs (set_status n t s) = dialogs s" "now (set_status n t s) = now s"
  "console (set_status n t s) = console s" "err_stream (set_status n t s) = err_stream s"
  by (simp_all add: set_status_def)

lemma upd_proc_frame [simp]:
  "processes (upd_proc p f s) = processes s"
  "heap (upd_proc p f s) = (heap s)(p := f (heap s p))"
  "next_pid (upd_proc p f s) = next_pid s" "sys_calls (upd_proc p f s) = sys_calls s"
  "dialogs (upd_proc p f s) = dialogs s" "now (upd_proc p f s) = now s"
  "console (upd_proc p f s) = console s" "err_stream (upd_proc p f s) = err_stream s"
  "sink_status_label (upd_proc p f s) = sink_status_label s"
  "source_status_label (upd_proc p f s) = source_status_label s"
  by (simp_all add: upd_proc_def)

lemma process_finished_frame [simp]:
  "processes (process_finished n c s) = processes s" "heap (process_finished n c s) = heap s"
  "next_pid (process_finished n c s) = next_pid s"
  "sys_calls (process_finished n c s) = sys_calls s"
  "dialogs (process_finished n c s) = dialogs s" "now (process_finished n c s) = now s"
  by (simp_all add: process_finished_def)

lemma emit_finished_frame [simp]:
  "processes (emit_finished p c s) = processes s"
  "heap (emit_finished p c s) =
     (heap s)(p := (heap s p)\<lparr>pstate := NotRunning, sigterm := False, sigkill := False\<rparr>)"
  "next_pid (emit_finished p c s) = next_pid s"
  "sys_calls (emit_finished p c s) = sys_calls s"
  "dialogs (emit_finished p c s) = dialogs s" "now (emit_finished p c s) = now s"
  by (simp_all add: emit_finished_def)

lemma running_gui_eval:
  "processes running_gui = [(''sink'', 0), (''source'', 1)]"
  "next_pid running_gui = 2"
  "pstate (heap running_gui 0) = Running" "pstate (heap running_gui (Suc 0)) = Running"
  "owner (heap running_gui 0) = ''sink''" "owner (heap running_gui (Suc 0)) = ''source''"
  "sigkill (heap running_gui 0) = False" "sigkill (heap running_gui (Suc 0)) = False"
  "beh (heap running_gui 0) = responsive" "beh (heap running_gui (Suc 0)) = stubborn"
  "sink_status_label running_gui = ''Running''" "source_status_label running_gui = ''Running''"
  by (simp_all add: running_gui_def sink_gui_def start_sink_service_def start_source_service_def
      build_universal_cmd_def sink_cmd_def source_cmd_def source_fps_opt_def source_bitrate_opt_def
      source_flags_def run_command_def stop_existing_def launch_def waitForStarted_def start_def
      new_process_def wlan_gui_def init_gui_def responsive_def stubborn_def
      strip_def py_isspace_def isdigit_def isdigit_char_def ascii_digit_def py_int_def dec_value_def
      Let_def upd_proc_def log_def)


subsection \<open>Stopping a role that is not registered, starting without an interface\<close>

text \<open>
  C7.  Stopping a role that has no entry in \<open>self.processes\<close> does nothing at all: the
  window's state after \<open>stop_sink_service\<close> (and after \<open>stop_source_service\<close>) is the state
  before it, so the registry, both status labels, the console, the process objects and
  the clock are untouched and no error is raised.
\<close>

theorem stop_unregistered_noop:
  "(map_of (processes s) ''sink'' = None \<longrightarrow> stop_sink_service s = s) \<and>
   (map_of (processes s) ''source'' = None \<longrightarrow> stop_source_service s = s)"
  by (simp add: stop_sink_service_def stop_source_service_def)

theorem stop_unregistered_noop_witness:
  "map_of (processes (init_gui ''/opt/mc.sh'')) ''sink'' = None \<and>
   stop_sink_service (init_gui ''/opt/mc.sh'') = init_gui ''/opt/mc.sh'' \<and>
   map_of (processes (init_gui ''/opt/mc.sh'')) ''source'' = None \<and>
   stop_source_service (init_gui ''/opt/mc.sh'') = init_gui ''/opt/mc.sh''"
  using stop_unregistered_noop [of "init_gui ''/opt/mc.sh''"]
  by (simp add: init_gui_def)

text \<open>
  C9.  A start request made while the interface selection is empty shows the error
  dialog ``Select network interface first'' and returns at once: the resulting state
  differs from the old one in the list of dialogs only, so no command was built, no
  process object was created, and the registry, the status labels and the console are
  as before.  This holds for the sink and for the source.
\<close>

theorem start_without_interface:
  "(iface_combo s = [] \<longrightarrow>
      start_sink_service b s =
        Inr (s\<lparr>dialogs := dialogs s @ [''Select network interface first'']\<rparr>)) \<and>
   (source_iface_combo s = [] \<longrightarrow>
      start_source_service b s =
        Inr (s\<lparr>dialogs := dialogs s @ [''Select network interface first'']\<rparr>))"
  by (simp add: start_sink_service_def start_source_service_def show_error_def)

theorem start_without_interface_witness:
  "iface_combo (init_gui ''/opt/mc.sh'') = [] \<and>
   start_sink_service responsive (init_gui ''/opt/mc.sh'') =
     Inr ((init_gui ''/opt/mc.sh'')\<lparr>dialogs := [''Select network interface first'']\<rparr>) \<and>
   source_iface_combo (init_gui ''/opt/mc.sh'') = [] \<and>
   start_source_service responsive (init_gui ''/opt/mc.sh'') =
     Inr ((init_gui ''/opt/mc.sh'')\<lparr>dialogs := [''Select network interface first'']\<rparr>)"
  using start_without_interface [of "init_gui ''/opt/mc.sh''" responsive]
  by (simp add: init_gui_def)

lemma whitelist_name_ok: "n \<in> set allowed_services \<Longrightarrow> name_ok n"
  by (auto simp: allowed_services_def name_ok_def name_char_def)

text \<open>
  C10.  A service name outside the whitelist NetworkManager, wpa_supplicant,
  network-manager, or one that is not made of letters, digits, underscore, dot and hyphen
  only, is refused by \<open>manage_service\<close>, whether the action is start or stop: the
  message is shown in an error dialog and written to the console and to standard error,
  nothing else of the state changes, and in particular no command is handed to
  \<open>subprocess\<close>.
\<close>

theorem manage_service_rejects:
  assumes "service_name \<notin> {''NetworkManager'', ''wpa_supplicant'', ''network-manager''}
           \<or> \<not> name_ok service_name"
  shows "manage_service service_name start_it env s =
           (let msg = (if re_match_name service_name
                       then ''Service management not allowed for: '' @ service_name
                       else ''Invalid service name format: '' @ service_name)
            in s\<lparr>dialogs := dialogs s @ [msg],
                 console := console s @ [strftime_hms (now s) @ '' [ERROR] '' @ msg],
                 err_stream := err_stream s @ [''ERROR: '' @ msg]\<rparr>)
         \<and> sys_calls (manage_service service_name start_it env s) = sys_calls s"
proof -
  have nw: "service_name \<notin> set allowed_services"
    using assms whitelist_name_ok [of service_name] by (auto simp: allowed_services_def)
  have eq: "manage_service service_name start_it env s =
           (let msg = (if re_match_name service_name
                       then ''Service management not allowed for: '' @ service_name
                       else ''Invalid service name format: '' @ service_name)
            in s\<lparr>dialogs := dialogs s @ [msg],
                 console := console s @ [strftime_hms (now s) @ '' [ERROR] '' @ msg],
                 err_stream := err_stream s @ [''ERROR: '' @ msg]\<rparr>)"
    using nw by (simp add: manage_service_def log_def show_error_def Let_def)
  then have "sys_calls (manage_service service_name start_it env s) = sys_calls s"
    by (simp add: Let_def)
  with eq show ?thesis by blast
qed

theorem manage_service_rejects_witness:
  "''sshd'' \<notin> {''NetworkManager'', ''wpa_supplicant'', ''network-manager''} \<and>
   dialogs (manage_service ''sshd'' False quiet_env (init_gui ''/opt/mc.sh''))
     = [''Service management not allowed for: sshd''] \<and>
   sys_calls (manage_service ''sshd'' False quiet_env (init_gui ''/opt/mc.sh'')) = []"
  using manage_service_rejects [of "''sshd''" False quiet_env "init_gui ''/opt/mc.sh''"]
  by (simp add: init_gui_def re_match_name_def name_ok_def name_char_def Let_def)

subsection \<open>Rejected input\<close>



subsection \<open>Stopping a registered process\<close>

text \<open>
  C2, as amended.  When the role has a process in the registry, \<open>stop_sink_service\<close>
  (and \<open>stop_source_service\<close>) sends SIGTERM and waits at most 3000 ms.  A child that is
  gone within that time is not killed and its object is \<open>NotRunning\<close>; a running child
  that is not gone after 3000 ms has received SIGTERM and then SIGKILL.  On both paths
  the process is no longer live and the role's label reads ``Not Running''.
  The registry is not changed: the role stays registered to the stopped process object.
\<close>

theorem stop_registered:
  "(map_of (processes s) ''sink'' = Some p \<longrightarrow>
      sink_status_label (stop_sink_service s) = ''Not Running'' \<and>
      \<not> live (heap (stop_sink_service s) p) \<and>
      now (stop_sink_service s) \<le> now s + 3000 \<and>
      (exits_within (heap s p) 3000 \<longrightarrow>
         pstate (heap (stop_sink_service s) p) = NotRunning \<and>
         \<not> sigkill (heap (stop_sink_service s) p)) \<and>
      (pstate (heap s p) \<noteq> NotRunning \<and> \<not> exits_within (heap s p) 3000 \<longrightarrow>
         sigterm (heap (stop_sink_service s) p) \<and> sigkill (heap (stop_sink_service s) p) \<and>
         now (stop_sink_service s) = now s + 3000) \<and>
      processes (stop_sink_service s) = processes s) \<and>
   (map_of (processes s) ''source'' = Some p \<longrightarrow>
      source_status_label (stop_source_service s) = ''Not Running'' \<and>
      \<not> live (heap (stop_source_service s) p) \<and>
      now (stop_source_service s) \<le> now s + 3000 \<and>
      (exits_within (heap s p) 3000 \<longrightarrow>
         pstate (heap (stop_source_service s) p) = NotRunning \<and>
         \<not> sigkill (heap (stop_source_service s) p)) \<and>
      (pstate (heap s p) \<noteq> NotRunning \<and> \<not> exits_within (heap s p) 3000 \<longrightarrow>
         sigterm (heap (stop_source_service s) p) \<and> sigkill (heap (stop_source_service s) p) \<and>
         now (stop_source_service s) = now s + 3000) \<and>
      processes (stop_source_service s) = processes s)"
  by (auto simp: stop_sink_service_def stop_source_service_def waitForFinished_def terminate_def
      kill_def live_def exits_within_def Let_def split: option.splits if_splits)

theorem stop_registered_witness:
  "map_of (processes running_gui) ''sink'' = Some 0 \<and>
   exits_within (heap running_gui 0) 3000 \<and>
   sink_status_label (stop_sink_service running_gui) = ''Not Running'' \<and>
   pstate (heap (stop_sink_service running_gui) 0) = NotRunning \<and>
   \<not> sigkill (heap (stop_sink_service running_gui) 0) \<and>
   map_of (processes running_gui) ''source'' = Some 1 \<and>
   pstate (heap running_gui 1) \<noteq> NotRunning \<and>
   \<not> exits_within (heap running_gui 1) 3000 \<and>
   source_status_label (stop_source_service running_gui) = ''Not Running'' \<and>
   sigkill (heap (stop_source_service running_gui) 1) \<and>
   \<not> live (heap (stop_source_service running_gui) 1) \<and>
   now (stop_source_service running_gui) = now running_gui + 3000"
proof -
  have a: "map_of (processes running_gui) ''sink'' = Some 0"
    and b: "map_of (processes running_gui) ''source'' = Some 1"
    by (simp_all add: running_gui_eval)
  have c: "exits_within (heap running_gui 0) 3000"
    by (simp add: exits_within_def running_gui_eval responsive_def)
  have d: "pstate (heap running_gui 1) \<noteq> NotRunning"
    and e: "\<not> exits_within (heap running_gui 1) 3000"
    by (simp_all add: exits_within_def running_gui_eval stubborn_def)
  show ?thesis
    using stop_registered [of running_gui 0] stop_registered [of running_gui 1] a b c d e
    by simp
qed

text \<open>
  The claim as stated also promises that the registry entry is removed.  After the sink
  of \<open>running_gui\<close> has been stopped the entry is still there.
\<close>

theorem stop_keeps_entry_counterexample:
  "map_of (processes running_gui) ''sink'' = Some 0 \<and>
   \<not> (map_of (processes (stop_sink_service running_gui)) ''sink'' = None)"
  by (simp add: running_gui_eval stop_sink_service_def waitForFinished_def terminate_def kill_def
      Let_def responsive_def split: prod.splits)

subsection \<open>A process that exits on its own\<close>

text \<open>
  C4, as amended.  When a child of the sink or of the source exits on its own, the
  role's label becomes ``Not Running'' for exit code zero and ``Error'' for any other
  code, which is then written to the console and to standard error as
  ``Process 'name' exited with code N''; the process object is \<open>NotRunning\<close>.
  The registry is not changed: the role stays registered to the exited process object.
\<close>

theorem process_exit_status:
  assumes "pstate (heap s p) \<noteq> NotRunning" and "owner (heap s p) = process_name"
    and "process_name = ''sink'' \<or> process_name = ''source''"
  shows "status_of process_name (process_exits p exit_code s)
           = (if exit_code = 0 then ''Not Running'' else ''Error'') \<and>
         (exit_code \<noteq> 0 \<longrightarrow>
            err_stream (process_exits p exit_code s)
              = err_stream s @ [''ERROR: Process '' @ squote @ process_name @ squote
                                @ '' exited with code '' @ str_int exit_code]) \<and>
         pstate (heap (process_exits p exit_code s) p) = NotRunning \<and>
         processes (process_exits p exit_code s) = processes s"
  using assms
  by (auto simp: process_exits_def status_of_def emit_finished_def process_finished_def
      set_status_def log_err_stream)

theorem process_exit_status_witness:
  "pstate (heap running_gui 1) \<noteq> NotRunning \<and>
   owner (heap running_gui 1) = ''source'' \<and>
   status_of ''source'' (process_exits 1 2 running_gui) = ''Error'' \<and>
   err_stream (process_exits 1 2 running_gui)
     = err_stream running_gui @ [''ERROR: Process '' @ squote @ ''source'' @ squote
                                 @ '' exited with code '' @ str_int 2] \<and>
   pstate (heap (process_exits 1 2 running_gui) 1) = NotRunning \<and>
   status_of ''sink'' (process_exits 0 0 running_gui) = ''Not Running''"
proof -
  have a: "pstate (heap running_gui 1) \<noteq> NotRunning" "owner (heap running_gui 1) = ''source''"
    "pstate (heap running_gui 0) \<noteq> NotRunning" "owner (heap running_gui 0) = ''sink''"
    by (simp_all add: running_gui_eval)
  show ?thesis
    using process_exit_status [of running_gui 1 "''source''" 2]
      process_exit_status [of running_gui 0 "''sink''" 0] a
    by simp
qed

text \<open>
  The claim as stated also promises that the registry entry is removed.  After the
  source of \<open>running_gui\<close> has exited with code 2 the entry is still there.
\<close>

theorem process_exit_keeps_entry_counterexample:
  "pstate (heap running_gui 1) = Running \<and>
   owner (heap running_gui 1) = ''source'' \<and>
   \<not> (map_of (processes (process_exits 1 2 running_gui)) ''source'' = None)"
  by (simp add: running_gui_eval process_exits_def)

subsection \<open>A start that fails\<close>

text \<open>
  C3.  The claim: when the launched process does not report started in time, the
  registry is left without the role and the status is ``Start Failed''.
  \<open>run_command\<close> does both.  But \<open>start_sink_service\<close> sets the label to ``Running''
  after \<open>run_command\<close> has returned, whatever happened in it: with wlan0 selected and a
  program that cannot be executed, the sink is not in the registry, its process object
  is \<open>NotRunning\<close>, \<open>run_command\<close> alone leaves the label at ``Start Failed'', and the
  label after \<open>start_sink_service\<close> reads ``Running''.
\<close>

theorem failed_start_reports_running:
  "\<exists>s'. start_sink_service unstartable wlan_gui = Inr s' \<and>
         map_of (processes s') ''sink'' = None \<and>
         pstate (heap s' 0) = NotRunning \<and>
         sink_status_label (run_command (Some (sink_cmd wlan_gui)) ''sink'' unstartable wlan_gui)
           = ''Start Failed'' \<and>
         sink_status_label s' = ''Running''"
  by (simp add: start_sink_service_def build_universal_cmd_def sink_cmd_def
      run_command_def stop_existing_def launch_def waitForStarted_def start_def pop_def
      new_process_def wlan_gui_def init_gui_def unstartable_def set_status_def
      Let_def upd_proc_def log_def)

subsection \<open>The options of the source command\<close>

lemma numeric_isdigit: "numeric t \<Longrightarrow> isdigit t"
  by (simp add: numeric_def)

lemma numeric_nonempty: "numeric t \<Longrightarrow> t \<noteq> []"
  by (auto simp: numeric_def isdigit_def)

lemma numeric_py_int: "numeric t \<Longrightarrow> py_int t = Inr (int_value t)"
  by (auto simp: numeric_def int_value_def split: sum.splits)

lemma numeric_between:
  "numeric t \<Longrightarrow> between lo t hi = (lo \<le> int_value t \<and> int_value t \<le> hi)"
  by (simp add: between_def numeric_py_int)

lemma wlan_gui_fields:
  "strip (source_res_width wlan_gui) = ''1280''" "strip (source_res_height wlan_gui) = ''720''"
  "strip (source_fps wlan_gui) = ''30''" "strip (source_bitrate wlan_gui) = ''8192''"
  "universal_script wlan_gui = ''/opt/mc.sh''" "source_iface_combo wlan_gui = ''wlan0''"
  "source_hw_fixes_check wlan_gui" "source_session_check wlan_gui"
  by (simp_all add: wlan_gui_def init_gui_def strip_def py_isspace_def)

lemma numeric_examples:
  "numeric ''1280''" "numeric ''720''" "numeric ''30''" "numeric ''8192''" "numeric ''5000''"
  "between 320 ''1280'' 3840" "between 240 ''720'' 2160" "between 10 ''30'' 60"
  "between 1000 ''8192'' 20000" "\<not> between 320 ''5000'' 3840"
  by (simp_all add: numeric_def isdigit_def isdigit_char_def ascii_digit_def py_int_def
      between_def dec_value_def)

lemma superscript_fps_raises:
  "isdigit (strip [CHR 0xB2]) \<and> \<not> numeric (strip [CHR 0xB2]) \<and>
   build_universal_cmd ''source'' (wlan_gui\<lparr>source_fps := [CHR 0xB2]\<rparr>) = Inl ValueError"
  by (simp add: build_universal_cmd_def source_cmd_def source_fps_opt_def wlan_gui_def
      init_gui_def strip_def py_isspace_def numeric_def isdigit_def isdigit_char_def
      ascii_digit_def py_int_def dec_value_def Let_def)

text \<open>
  C8, as amended.  The four fields are read after \<open>strip\<close>.  Call a text numeric when
  \<open>isdigit()\<close> holds for it and \<open>int()\<close> converts it, and let every field be numeric or
  else fail \<open>isdigit()\<close>.  Then \<open>build_universal_cmd("source")\<close> returns \<open>None\<close> exactly
  when width and height are both numeric and not both in range (320 to 3840, 240 to
  2160), or the FPS is numeric and outside 10 to 60, or the bitrate is numeric and
  outside 1000 to 20000.  Otherwise it returns the base command followed by \<open>-r WxH\<close>
  exactly when width and height are both numeric, \<open>-f FPS\<close> exactly when the FPS is
  numeric, \<open>-b BITRATE\<close> exactly when the bitrate is numeric, and the two flags.  So an
  FPS or a bitrate that is empty or fails \<open>isdigit()\<close> omits its option, and a width or
  a height that is empty or fails \<open>isdigit()\<close> omits the resolution whatever the other
  of the two holds.  A field for which \<open>isdigit()\<close> holds but which \<open>int()\<close> rejects (a
  superscript digit, more than 4300 digits) is outside this statement: the lemma
  above shows the \<open>ValueError\<close> it raises.
\<close>

theorem source_cmd_options:
  "let w = strip (source_res_width s); h = strip (source_res_height s);
       f = strip (source_fps s); b = strip (source_bitrate s);
       res_bad = (numeric w \<and> numeric h \<and> \<not> (between 320 w 3840 \<and> between 240 h 2160));
       fps_bad = (numeric f \<and> \<not> between 10 f 60);
       bitrate_bad = (numeric b \<and> \<not> between 1000 b 20000)
   in (isdigit w \<longrightarrow> numeric w) \<and> (isdigit h \<longrightarrow> numeric h) \<and>
      (isdigit f \<longrightarrow> numeric f) \<and> (isdigit b \<longrightarrow> numeric b) \<longrightarrow>
      (\<exists>s'. build_universal_cmd ''source'' s =
         Inr (if res_bad \<or> fps_bad \<or> bitrate_bad then None
              else Some ([universal_script s, ''-i'', source_iface_combo s, ''-m'', ''source'']
                         @ (if numeric w \<and> numeric h then [''-r'', w @ ''x'' @ h] else [])
                         @ (if numeric f then [''-f'', f] else [])
                         @ (if numeric b then [''-b'', b] else [])
                         @ (if \<not> source_hw_fixes_check s then [''-n''] else [])
                         @ (if \<not> source_session_check s then [''-s''] else [])), s'))"
  unfolding Let_def
  apply (intro impI)
  apply (elim conjE)
  apply (cases "numeric (strip (source_res_width s))"; cases "numeric (strip (source_res_height s))";
         cases "numeric (strip (source_fps s))"; cases "numeric (strip (source_bitrate s))")
  apply (simp_all add: build_universal_cmd_def source_cmd_def source_fps_opt_def
      source_bitrate_opt_def source_flags_def numeric_isdigit numeric_py_int numeric_nonempty
      numeric_between Let_def)
  done

theorem source_cmd_options_witness:
  "numeric (strip (source_res_width wlan_gui)) \<and> numeric (strip (source_res_height wlan_gui)) \<and>
   numeric (strip (source_fps wlan_gui)) \<and> numeric (strip (source_bitrate wlan_gui)) \<and>
   (\<exists>s'. build_universal_cmd ''source'' wlan_gui =
      Inr (Some [''/opt/mc.sh'', ''-i'', ''wlan0'', ''-m'', ''source'', ''-r'', ''1280x720'',
                 ''-f'', ''30'', ''-b'', ''8192''], s'))"
  using source_cmd_options [of wlan_gui]
  by (simp add: wlan_gui_fields numeric_examples Let_def)

text \<open>
  The claim as stated says that any all-digit value out of range makes the build return
  \<open>None\<close>.  With width 5000 and an empty height the build returns a command, without
  a resolution option.
\<close>

theorem out_of_range_width_counterexample:
  "numeric (strip ''5000'') \<and> \<not> between 320 (strip ''5000'') 3840 \<and>
   build_universal_cmd ''source'' (wlan_gui\<lparr>source_res_width := ''5000'', source_res_height := []\<rparr>)
     = Inr (Some [''/opt/mc.sh'', ''-i'', ''wlan0'', ''-m'', ''source'', ''-f'', ''30'', ''-b'', ''8192''],
            wlan_gui\<lparr>source_res_width := ''5000'', source_res_height := []\<rparr>)"
  by (simp add: build_universal_cmd_def source_cmd_def source_fps_opt_def source_bitrate_opt_def
      source_flags_def wlan_gui_def init_gui_def strip_def py_isspace_def isdigit_def
      isdigit_char_def ascii_digit_def py_int_def dec_value_def numeric_def between_def Let_def)

subsection \<open>Teardown\<close>

lemmas stop_defs = waitForFinished_def terminate_def kill_def Let_def

lemma cleanup_one_processes [simp]: "processes (cleanup_one n p s) = processes s"
  by (simp add: cleanup_one_def stop_defs split: option.splits)

lemma cleanup_one_other: "q \<noteq> p \<Longrightarrow> heap (cleanup_one n p s) q = heap s q"
  by (simp add: cleanup_one_def stop_defs split: option.splits)

lemma cleanup_one_stops: "\<not> live (heap (cleanup_one n p s) p)"
  by (simp add: cleanup_one_def stop_defs live_def split: option.splits)

lemma cleanup_one_now: "now (cleanup_one n p s) \<le> now s + 2000"
  by (simp add: cleanup_one_def stop_defs split: option.splits)

lemma cleanup_one_graceful:
  "exits_within (heap s p) 2000 \<Longrightarrow>
     pstate (heap (cleanup_one n p s) p) = NotRunning \<and> \<not> sigkill (heap (cleanup_one n p s) p)"
  by (auto simp: cleanup_one_def stop_defs exits_within_def split: option.splits)

lemma cleanup_one_forced:
  "pstate (heap s p) \<noteq> NotRunning \<Longrightarrow> \<not> exits_within (heap s p) 2000 \<Longrightarrow>
     sigterm (heap (cleanup_one n p s) p) \<and> sigkill (heap (cleanup_one n p s) p)"
  by (auto simp: cleanup_one_def stop_defs exits_within_def split: option.splits)

lemma cleanup_one_keeps_dead:
  "\<not> live (heap s q) \<Longrightarrow> \<not> live (heap (cleanup_one n p s) q)"
  by (cases "q = p") (simp_all add: cleanup_one_stops cleanup_one_other)

lemma cleanup_loop_processes [simp]: "processes (cleanup_loop items s) = processes s"
  by (induction items s rule: cleanup_loop.induct) simp_all

lemma cleanup_loop_other:
  "q \<notin> snd ` set items \<Longrightarrow> heap (cleanup_loop items s) q = heap s q"
  by (induction items s rule: cleanup_loop.induct) (simp_all add: cleanup_one_other)

lemma cleanup_loop_keeps_dead:
  "\<not> live (heap s q) \<Longrightarrow> \<not> live (heap (cleanup_loop items s) q)"
  by (induction items s rule: cleanup_loop.induct) (simp_all add: cleanup_one_keeps_dead)

lemma cleanup_loop_stops:
  "(n, p) \<in> set items \<Longrightarrow> \<not> live (heap (cleanup_loop items s) p)"
proof (induction items arbitrary: s)
  case Nil
  then show ?case by simp
next
  case (Cons item items)
  obtain n' p' where item: "item = (n', p')" by (cases item)
  show ?case
  proof (cases "(n, p) = item")
    case True
    then have "\<not> live (heap (cleanup_one n' p' s) p)"
      using item cleanup_one_stops by simp
    then show ?thesis
      using item cleanup_loop_keeps_dead by simp
  next
    case False
    then have "(n, p) \<in> set items" using Cons.prems by simp
    then show ?thesis using Cons.IH item by simp
  qed
qed

lemma cleanup_loop_now:
  "now (cleanup_loop items s) \<le> now s + 2000 * length items"
proof (induction items arbitrary: s)
  case Nil
  then show ?case by simp
next
  case (Cons item items)
  obtain n p where item: "item = (n, p)" by (cases item)
  have "now (cleanup_loop items (cleanup_one n p s)) \<le> now (cleanup_one n p s) + 2000 * length items"
    using Cons.IH by blast
  also have "\<dots> \<le> now s + 2000 + 2000 * length items"
    using cleanup_one_now [of n p s] by simp
  finally show ?case using item by simp
qed

lemma cleanup_loop_graceful:
  "distinct (map snd items) \<Longrightarrow> (n, p) \<in> set items \<Longrightarrow> exits_within (heap s p) 2000 \<Longrightarrow>
     pstate (heap (cleanup_loop items s) p) = NotRunning \<and>
     \<not> sigkill (heap (cleanup_loop items s) p)"
proof (induction items arbitrary: s)
  case Nil
  then show ?case by simp
next
  case (Cons item items)
  obtain n' p' where item: "item = (n', p')" by (cases item)
  show ?case
  proof (cases "p = p'")
    case True
    then have "p \<notin> snd ` set items" using Cons.prems(1) item by simp
    then have "heap (cleanup_loop items (cleanup_one n' p' s)) p = heap (cleanup_one n' p' s) p"
      by (rule cleanup_loop_other)
    then show ?thesis
      using cleanup_one_graceful [of s p n'] Cons.prems(3) True item by simp
  next
    case False
    then have mem: "(n, p) \<in> set items" using Cons.prems(2) item by auto
    have "exits_within (heap (cleanup_one n' p' s) p) 2000"
      using Cons.prems(3) False by (simp add: cleanup_one_other)
    then show ?thesis
      using Cons.IH [of "cleanup_one n' p' s"] mem Cons.prems(1) item by simp
  qed
qed

lemma cleanup_loop_forced:
  "distinct (map snd items) \<Longrightarrow> (n, p) \<in> set items \<Longrightarrow>
   pstate (heap s p) \<noteq> NotRunning \<Longrightarrow> \<not> exits_within (heap s p) 2000 \<Longrightarrow>
     sigterm (heap (cleanup_loop items s) p) \<and> sigkill (heap (cleanup_loop items s) p)"
proof (induction items arbitrary: s)
  case Nil
  then show ?case by simp
next
  case (Cons item items)
  obtain n' p' where item: "item = (n', p')" by (cases item)
  show ?case
  proof (cases "p = p'")
    case True
    then have "p \<notin> snd ` set items" using Cons.prems(1) item by simp
    then have "heap (cleanup_loop items (cleanup_one n' p' s)) p = heap (cleanup_one n' p' s) p"
      by (rule cleanup_loop_other)
    then show ?thesis
      using cleanup_one_forced [of s p n'] Cons.prems(3,4) True item by simp
  next
    case False
    then have mem: "(n, p) \<in> set items" using Cons.prems(2) item by auto
    have "pstate (heap (cleanup_one n' p' s) p) \<noteq> NotRunning"
      "\<not> exits_within (heap (cleanup_one n' p' s) p) 2000"
      using Cons.prems(3,4) False by (simp_all add: cleanup_one_other)
    then show ?thesis
      using Cons.IH [of "cleanup_one n' p' s"] mem Cons.prems(1) item by simp
  qed
qed

text \<open>
  C5.  \<open>cleanup_on_exit\<close>, the handler registered with \<open>atexit\<close>, goes through the
  registry.  Afterwards no registered process is live.  The clock has advanced by at most
  2000 ms for each entry, so the exit is not held up for longer than that.  For each entry
  (the process objects of the entries being different): a child that is gone within
  2000 ms of SIGTERM is not killed and its object is \<open>NotRunning\<close>; a running child that
  is not gone by then has received SIGTERM and then SIGKILL.
\<close>

theorem cleanup_on_exit_stops_all:
  "(\<forall>(name, p) \<in> set (processes s). \<not> live (heap (cleanup_on_exit s) p)) \<and>
   now (cleanup_on_exit s) \<le> now s + 2000 * length (processes s) \<and>
   (distinct (map snd (processes s)) \<longrightarrow>
      (\<forall>(name, p) \<in> set (processes s).
         (exits_within (heap s p) 2000 \<longrightarrow>
            pstate (heap (cleanup_on_exit s) p) = NotRunning \<and>
            \<not> sigkill (heap (cleanup_on_exit s) p)) \<and>
         (pstate (heap s p) \<noteq> NotRunning \<and> \<not> exits_within (heap s p) 2000 \<longrightarrow>
            sigterm (heap (cleanup_on_exit s) p) \<and> sigkill (heap (cleanup_on_exit s) p))))"
proof -
  have a: "\<forall>(name, p) \<in> set (processes s). \<not> live (heap (cleanup_on_exit s) p)"
    unfolding cleanup_on_exit_def using cleanup_loop_stops by blast
  have b: "now (cleanup_on_exit s) \<le> now s + 2000 * length (processes s)"
    unfolding cleanup_on_exit_def by (rule cleanup_loop_now)
  have c: "\<forall>(name, p) \<in> set (processes s).
         (exits_within (heap s p) 2000 \<longrightarrow>
            pstate (heap (cleanup_on_exit s) p) = NotRunning \<and>
            \<not> sigkill (heap (cleanup_on_exit s) p)) \<and>
         (pstate (heap s p) \<noteq> NotRunning \<and> \<not> exits_within (heap s p) 2000 \<longrightarrow>
            sigterm (heap (cleanup_on_exit s) p) \<and> sigkill (heap (cleanup_on_exit s) p))"
    if d: "distinct (map snd (processes s))"
    unfolding cleanup_on_exit_def
    using cleanup_loop_graceful [OF d] cleanup_loop_forced [OF d] by blast
  from a b c show ?thesis by blast
qed

theorem cleanup_on_exit_stops_all_witness:
  "distinct (map snd (processes running_gui)) \<and>
   (''sink'', 0) \<in> set (processes running_gui) \<and>
   exits_within (heap running_gui 0) 2000 \<and>
   pstate (heap (cleanup_on_exit running_gui) 0) = NotRunning \<and>
   \<not> sigkill (heap (cleanup_on_exit running_gui) 0) \<and>
   (''source'', 1) \<in> set (processes running_gui) \<and>
   pstate (heap running_gui 1) \<noteq> NotRunning \<and>
   \<not> exits_within (heap running_gui 1) 2000 \<and>
   sigkill (heap (cleanup_on_exit running_gui) 1) \<and>
   \<not> live (heap (cleanup_on_exit running_gui) 0) \<and>
   \<not> live (heap (cleanup_on_exit running_gui) 1) \<and>
   now (cleanup_on_exit running_gui) \<le> now running_gui + 4000"
  using cleanup_on_exit_stops_all [of running_gui]
  by (simp add: running_gui_eval exits_within_def responsive_def stubborn_def)

subsection \<open>One process for a role\<close>

lemma set_update_subset: "set (AList.update k v al) \<subseteq> insert (k, v) (set al)"
  by (induction al) auto

lemma set_delete_subset: "set (AList.delete k al) \<subseteq> set al"
  by (auto simp: AList.delete_eq)

lemma registry_ok_frame:
  "processes s' = processes s \<Longrightarrow> next_pid s' = next_pid s \<Longrightarrow> registry_ok s \<Longrightarrow> registry_ok s'"
  by (simp add: registry_ok_def)

lemma registry_ok_update:
  assumes "registry_ok s" "processes s' = AList.update n (next_pid s) (processes s)"
    "next_pid s' = Suc (next_pid s)"
  shows "registry_ok s'"
proof -
  have "distinct (map fst (processes s'))"
    using assms by (simp add: registry_ok_def distinct_update)
  moreover have "p < next_pid s'" if "(m, p) \<in> set (processes s')" for m p
  proof -
    from that assms(2) have "(m, p) \<in> insert (n, next_pid s) (set (processes s))"
      using set_update_subset by fastforce
    then show ?thesis using assms(1,3) by (auto simp: registry_ok_def)
  qed
  ultimately show ?thesis by (auto simp: registry_ok_def)
qed

lemma registry_ok_delete:
  assumes "registry_ok s" "processes s' = AList.delete n (processes s)"
    "next_pid s' = next_pid s"
  shows "registry_ok s'"
proof -
  have "distinct (map fst (processes s'))"
    using assms by (simp add: registry_ok_def distinct_delete)
  moreover have "p < next_pid s'" if "(m, p) \<in> set (processes s')" for m p
  proof -
    from that assms(2) have "(m, p) \<in> set (processes s)"
      using set_delete_subset by fastforce
    then show ?thesis using assms(1,3) by (auto simp: registry_ok_def)
  qed
  ultimately show ?thesis by (auto simp: registry_ok_def)
qed

lemma stop_existing_frame [simp]:
  "processes (stop_existing n s) = processes s" "next_pid (stop_existing n s) = next_pid s"
  by (simp_all add: stop_existing_def stop_defs split: option.splits)

lemma stop_existing_stops:
  "map_of (processes s) n = Some old \<Longrightarrow> \<not> live (heap (stop_existing n s) old)"
  by (simp add: stop_existing_def stop_defs live_def split: option.splits)

lemma stop_existing_sequence:
  "map_of (processes s) n = Some old \<Longrightarrow>
     now (stop_existing n s) \<le> now s + 3000 \<and>
     (exits_within (heap s old) 3000 \<longrightarrow>
        pstate (heap (stop_existing n s) old) = NotRunning \<and>
        \<not> sigkill (heap (stop_existing n s) old)) \<and>
     (pstate (heap s old) \<noteq> NotRunning \<and> \<not> exits_within (heap s old) 3000 \<longrightarrow>
        sigterm (heap (stop_existing n s) old) \<and> sigkill (heap (stop_existing n s) old))"
  by (auto simp: stop_existing_def stop_defs exits_within_def split: option.splits)

lemma stop_existing_keeps_dead:
  "\<not> live (heap s q) \<Longrightarrow> \<not> live (heap (stop_existing n s) q)"
  by (simp add: stop_existing_def stop_defs live_def split: option.splits)

lemma launch_next_pid [simp]: "next_pid (launch cmd n b s) = Suc (next_pid s)"
  by (simp add: launch_def waitForStarted_def start_def pop_def Let_def
      split: list.splits option.splits)

lemma launch_processes:
  "processes (launch cmd n b s) = AList.update n (next_pid s) (processes s) \<or>
   processes (launch cmd n b s) = AList.delete n (processes s)"
  by (simp add: launch_def waitForStarted_def start_def pop_def Let_def delete_update_same
      split: list.splits option.splits)

lemma launch_heap_other: "q \<noteq> next_pid s \<Longrightarrow> heap (launch cmd n b s) q = heap s q"
  by (simp add: launch_def waitForStarted_def start_def pop_def Let_def
      split: list.splits option.splits)

lemma launch_registered:
  "map_of (processes (launch cmd n b s)) n = Some p \<Longrightarrow>
     p = next_pid s \<and> pstate (heap (launch cmd n b s) p) = Running"
  by (simp add: launch_def waitForStarted_def start_def pop_def Let_def new_process_def
      update_conv' delete_conv' split: list.splits option.splits if_splits)

lemma registry_ok_launch: "registry_ok s \<Longrightarrow> registry_ok (launch cmd n b s)"
proof -
  assume ok: "registry_ok s"
  have "registry_ok (s\<lparr>next_pid := Suc (next_pid s)\<rparr>)"
    using ok by (auto simp: registry_ok_def)
  then have del: "processes (launch cmd n b s) = AList.delete n (processes s) \<Longrightarrow>
      registry_ok (launch cmd n b s)"
    using registry_ok_delete [of "s\<lparr>next_pid := Suc (next_pid s)\<rparr>" "launch cmd n b s" n] by simp
  show ?thesis
    using launch_processes [of cmd n b s] registry_ok_update [OF ok, of "launch cmd n b s" n] del
    by auto
qed

lemma registry_ok_run_command: "registry_ok s \<Longrightarrow> registry_ok (run_command cmd n b s)"
proof (cases cmd)
  case None
  assume "registry_ok s"
  then show ?thesis using None by (simp add: run_command_def registry_ok_def)
next
  case (Some c)
  assume "registry_ok s"
  then have "registry_ok (stop_existing n s)" by (simp add: registry_ok_def)
  then show ?thesis using Some by (simp add: run_command_def registry_ok_launch)
qed

lemma source_cmd_frame:
  "source_cmd s = Inr (cmd, s1) \<Longrightarrow> processes s1 = processes s \<and> next_pid s1 = next_pid s"
  by (auto simp: source_cmd_def source_fps_opt_def source_bitrate_opt_def source_flags_def
      show_error_def Let_def split: if_splits sum.splits)

lemma registry_ok_start_sink:
  "registry_ok s \<Longrightarrow> start_sink_service b s = Inr s' \<Longrightarrow> registry_ok s'"
proof -
  assume ok: "registry_ok s" and st: "start_sink_service b s = Inr s'"
  show ?thesis
  proof (cases "iface_combo s = []")
    case True
    then have "s' = show_error ''Select network interface first'' s"
      using st by (simp add: start_sink_service_def)
    then show ?thesis using ok by (simp add: registry_ok_def show_error_def)
  next
    case False
    then have "processes s' = processes (run_command (Some (sink_cmd s)) ''sink'' b s)"
      "next_pid s' = next_pid (run_command (Some (sink_cmd s)) ''sink'' b s)"
      using st by (auto simp: start_sink_service_def build_universal_cmd_def)
    then show ?thesis
      using registry_ok_run_command [OF ok, of "Some (sink_cmd s)" "''sink''" b]
      by (rule registry_ok_frame)
  qed
qed

lemma registry_ok_start_source:
  "registry_ok s \<Longrightarrow> start_source_service b s = Inr s' \<Longrightarrow> registry_ok s'"
proof -
  assume ok: "registry_ok s" and st: "start_source_service b s = Inr s'"
  show ?thesis
  proof (cases "source_iface_combo s = []")
    case True
    then have "s' = show_error ''Select network interface first'' s"
      using st by (simp add: start_source_service_def)
    then show ?thesis using ok by (simp add: registry_ok_def show_error_def)
  next
    case False
    then obtain cmd s1 where b: "source_cmd s = Inr (cmd, s1)"
      and s': "s' = log (''Started source mode with universal script on '' @ source_iface_combo s)
                 False ((run_command cmd ''source'' b s1)\<lparr>source_status_label := ''Running''\<rparr>)"
      using st
      by (auto simp: start_source_service_def build_universal_cmd_def split: sum.splits)
    have "registry_ok s1"
      using source_cmd_frame [OF b] ok by (simp add: registry_ok_def)
    then have "registry_ok (run_command cmd ''source'' b s1)"
      by (rule registry_ok_run_command)
    then show ?thesis using s' by (simp add: registry_ok_def)
  qed
qed

lemma stop_service_frame [simp]:
  "processes (stop_sink_service s) = processes s" "next_pid (stop_sink_service s) = next_pid s"
  "processes (stop_source_service s) = processes s"
  "next_pid (stop_source_service s) = next_pid s"
  by (simp_all add: stop_sink_service_def stop_source_service_def stop_defs split: option.splits)

lemma event_frame [simp]:
  "processes (process_exits p c s) = processes s" "next_pid (process_exits p c s) = next_pid s"
  "processes (process_started p s) = processes s" "next_pid (process_started p s) = next_pid s"
  "processes (user_input w s) = processes s" "next_pid (user_input w s) = next_pid s"
  by (simp_all add: process_exits_def process_started_def user_input_def)

lemma services_frame [simp]:
  "processes (check_services_status env s) = processes s"
  "next_pid (check_services_status env s) = next_pid s"
  "processes (manage_service n st env s) = processes s"
  "next_pid (manage_service n st env s) = next_pid s"
  by (simp_all add: check_services_status_def manage_service_def show_error_def Let_def
      split: sum.splits prod.splits)

lemma reachable_registry_ok: "reachable s \<Longrightarrow> registry_ok s"
proof (induction rule: reachable.induct)
  case (init script)
  show ?case by (simp add: registry_ok_def init_gui_def)
next
  case (start_sink s b s')
  then show ?case by (simp add: registry_ok_start_sink)
next
  case (start_source s b s')
  then show ?case by (simp add: registry_ok_start_source)
qed (simp_all add: registry_ok_def)

lemma sink_gui_step: "start_sink_service responsive wlan_gui = Inr sink_gui"
proof -
  have "\<exists>s'. start_sink_service responsive wlan_gui = Inr s'"
    by (simp add: start_sink_service_def build_universal_cmd_def Let_def)
  then show ?thesis by (auto simp: sink_gui_def)
qed

lemma running_gui_step: "start_source_service stubborn sink_gui = Inr running_gui"
proof -
  have "\<exists>s'. start_source_service stubborn sink_gui = Inr s'"
    by (simp add: sink_gui_def start_sink_service_def start_source_service_def
      build_universal_cmd_def sink_cmd_def source_cmd_def source_fps_opt_def source_bitrate_opt_def
      source_flags_def run_command_def stop_existing_def launch_def waitForStarted_def start_def
      new_process_def wlan_gui_def init_gui_def responsive_def stubborn_def
      strip_def py_isspace_def isdigit_def isdigit_char_def ascii_digit_def py_int_def dec_value_def
      Let_def upd_proc_def log_def)
  then show ?thesis by (auto simp: running_gui_def)
qed

lemma running_gui_reachable: "reachable running_gui"
proof -
  have "wlan_gui = user_input wlan_gui (init_gui ''/opt/mc.sh'')"
    by (simp add: wlan_gui_def user_input_def init_gui_def)
  then have "reachable wlan_gui"
    using reachable.input [OF reachable.init, of wlan_gui "''/opt/mc.sh''"] by simp
  then have "reachable sink_gui"
    using sink_gui_step by (rule reachable.start_sink)
  then show ?thesis
    using running_gui_step by (rule reachable.start_source)
qed

lemma one_value_per_key:
  "distinct (map fst al) \<Longrightarrow> (k, a) \<in> set al \<Longrightarrow> (k, b) \<in> set al \<Longrightarrow> a = b"
  by (meson eq_key_imp_eq_value)

text \<open>
  C1.  In every state the window can reach, the registry holds at most one process for
  a role.  When \<open>run_command\<close> is called for a role that has a process \<open>old\<close> in the
  registry, it first runs the stop sequence: SIGTERM and a wait of at most 3000 ms, after
  which a child that is gone in time is \<open>NotRunning\<close> and not killed, and a running
  child that is not gone has received SIGKILL.  In the state \<open>stop_existing\<close> leaves,
  \<open>old\<close> is not live, and no process has been created or registered yet.  Only then is the new
  process launched.  After \<open>run_command\<close>, \<open>old\<close> is still not live, the role is
  registered to nothing or to the one new process, which is running and is not \<open>old\<close>,
  and the registry still has one entry for a key.
\<close>

theorem one_process_per_role:
  assumes "reachable s"
  shows "(\<forall>role p p'. (role, p) \<in> set (processes s) \<and> (role, p') \<in> set (processes s)
            \<longrightarrow> p = p') \<and>
         distinct (map fst (processes s)) \<and>
         (map_of (processes s) process_name = Some old \<longrightarrow>
            now (stop_existing process_name s) \<le> now s + 3000 \<and>
            (exits_within (heap s old) 3000 \<longrightarrow>
               pstate (heap (stop_existing process_name s) old) = NotRunning \<and>
               \<not> sigkill (heap (stop_existing process_name s) old)) \<and>
            (pstate (heap s old) \<noteq> NotRunning \<and> \<not> exits_within (heap s old) 3000 \<longrightarrow>
               sigterm (heap (stop_existing process_name s) old) \<and>
               sigkill (heap (stop_existing process_name s) old)) \<and>
            \<not> live (heap (stop_existing process_name s) old) \<and>
            processes (stop_existing process_name s) = processes s \<and>
            next_pid (stop_existing process_name s) = next_pid s \<and>
            run_command (Some cmd) process_name b s
              = launch cmd process_name b (stop_existing process_name s) \<and>
            \<not> live (heap (run_command (Some cmd) process_name b s) old) \<and>
            (\<forall>p. map_of (processes (run_command (Some cmd) process_name b s)) process_name = Some p
                 \<longrightarrow> p = next_pid s \<and> p \<noteq> old \<and>
                     pstate (heap (run_command (Some cmd) process_name b s) p) = Running) \<and>
            distinct (map fst (processes (run_command (Some cmd) process_name b s))))"
proof -
  have ok: "registry_ok s" using assms by (rule reachable_registry_ok)
  then have d: "distinct (map fst (processes s))" by (simp add: registry_ok_def)
  have u: "\<forall>role p p'. (role, p) \<in> set (processes s) \<and> (role, p') \<in> set (processes s)
            \<longrightarrow> p = p'"
    using one_value_per_key [OF d] by blast
  have r: "now (stop_existing process_name s) \<le> now s + 3000 \<and>
            (exits_within (heap s old) 3000 \<longrightarrow>
               pstate (heap (stop_existing process_name s) old) = NotRunning \<and>
               \<not> sigkill (heap (stop_existing process_name s) old)) \<and>
            (pstate (heap s old) \<noteq> NotRunning \<and> \<not> exits_within (heap s old) 3000 \<longrightarrow>
               sigterm (heap (stop_existing process_name s) old) \<and>
               sigkill (heap (stop_existing process_name s) old)) \<and>
            \<not> live (heap (stop_existing process_name s) old) \<and>
            processes (stop_existing process_name s) = processes s \<and>
            next_pid (stop_existing process_name s) = next_pid s \<and>
            run_command (Some cmd) process_name b s
              = launch cmd process_name b (stop_existing process_name s) \<and>
            \<not> live (heap (run_command (Some cmd) process_name b s) old) \<and>
            (\<forall>p. map_of (processes (run_command (Some cmd) process_name b s)) process_name = Some p
                 \<longrightarrow> p = next_pid s \<and> p \<noteq> old \<and>
                     pstate (heap (run_command (Some cmd) process_name b s) p) = Running) \<and>
            distinct (map fst (processes (run_command (Some cmd) process_name b s)))"
    if reg: "map_of (processes s) process_name = Some old"
  proof -
    let ?m = "stop_existing process_name s"
    let ?s' = "run_command (Some cmd) process_name b s"
    have eq: "?s' = launch cmd process_name b ?m" by (simp add: run_command_def)
    have "(process_name, old) \<in> set (processes s)" using reg by (rule map_of_SomeD)
    then have lt: "old < next_pid s" using ok by (auto simp: registry_ok_def)
    have dead: "\<not> live (heap ?m old)" using reg by (rule stop_existing_stops)
    have "heap ?s' old = heap ?m old"
      using lt by (simp add: eq launch_heap_other)
    then have dead': "\<not> live (heap ?s' old)" using dead by simp
    have new: "p = next_pid s \<and> p \<noteq> old \<and> pstate (heap ?s' p) = Running"
      if "map_of (processes ?s') process_name = Some p" for p
      using launch_registered [of cmd process_name b ?m p] that lt by (auto simp: eq)
    have "registry_ok ?s'" using ok by (rule registry_ok_run_command)
    then have "distinct (map fst (processes ?s'))" by (simp add: registry_ok_def)
    with dead dead' new eq stop_existing_sequence [OF reg] show ?thesis by simp
  qed
  from u d r show ?thesis by blast
qed

theorem one_process_per_role_witness:
  "reachable running_gui \<and>
   map_of (processes running_gui) ''sink'' = Some 0 \<and>
   exits_within (heap running_gui 0) 3000 \<and>
   pstate (heap (stop_existing ''sink'' running_gui) 0) = NotRunning \<and>
   \<not> live (heap (stop_existing ''sink'' running_gui) 0) \<and>
   \<not> live (heap (run_command (Some [''/opt/mc.sh'']) ''sink'' responsive running_gui) 0) \<and>
   distinct (map fst (processes (run_command (Some [''/opt/mc.sh'']) ''sink'' responsive running_gui)))"
proof -
  have e: "exits_within (heap running_gui 0) 3000"
    by (simp add: exits_within_def running_gui_eval responsive_def)
  have r: "reachable running_gui" by (rule running_gui_reachable)
  have m: "map_of (processes running_gui) ''sink'' = Some 0"
    by (simp add: running_gui_eval)
  from one_process_per_role [OF r, of "''sink''" 0 "[''/opt/mc.sh'']" responsive] m e
  have "pstate (heap (stop_existing ''sink'' running_gui) 0) = NotRunning \<and>
   \<not> live (heap (stop_existing ''sink'' running_gui) 0) \<and>
   \<not> live (heap (run_command (Some [''/opt/mc.sh'']) ''sink'' responsive running_gui) 0) \<and>
   distinct (map fst (processes (run_command (Some [''/opt/mc.sh'']) ''sink'' responsive running_gui)))"
    by blast
  with r m e show ?thesis by blast
qed

end
